theory Spec2Isabelle
  imports Main "HOL-Library.Sublist" "HOL-Library.AList"
begin

section \<open>Python values, exceptions and HTTP messages\<close>

text \<open>
  The client is dynamically typed: session ids, request parameters and decoded JSON
  bodies are arbitrary Python values. \<open>pyval\<close> covers the values a JSON decoder
  returns (\<open>None\<close>, booleans, integers, strings, lists, dictionaries); a dictionary is an
  association list read with \<open>map_of\<close>. JSON numbers are integers here; floating
  point numbers are not modelled. A \<open>string\<close> is a list of 8-bit code points.
\<close>

datatype pyval =
    PNone
  | PBool bool
  | PInt int
  | PStr string
  | PList "pyval list"
  | PDict "(string \<times> pyval) list"

text \<open>Python truthiness, as used by \<^verbatim>\<open>if v\<close> and \<^verbatim>\<open>not v\<close>.\<close>

fun truthy :: "pyval \<Rightarrow> bool" where
  "truthy PNone = False"
| "truthy (PBool b) = b"
| "truthy (PInt i) = (i \<noteq> 0)"
| "truthy (PStr s) = (s \<noteq> [])"
| "truthy (PList xs) = (xs \<noteq> [])"
| "truthy (PDict kvs) = (kvs \<noteq> [])"

text \<open>The exception classes of \<^verbatim>\<open>azkaban_cli.exceptions\<close> that are named after an operation.\<close>

datatype exception_class =
    LoginError
  | UploadError
  | ScheduleError
  | FetchFlowsError
  | FetchJobsFromFlowError
  | FetchScheduleError
  | FetchSLAError
  | UnscheduleError
  | ExecuteError
  | CancelError
  | CreateError
  | AddPermissionError
  | RemovePermissionError
  | ChangePermissionError
  | FetchFlowExecutionError
  | FetchFlowExecutionUpdatesError
  | FetchExecutionsOfAFlowError
  | FetchExecutionJobsLogError
  | ResumeFlowExecutionError
  | FetchRunningExecutionsOfAFlowError

text \<open>
  Everything the code can raise. \<open>Raised cls msg\<close> is \<^verbatim>\<open>raise exception(error_msg)\<close>
  for one of the classes above; the others are the two cross-cutting client errors,
  the interpreter's own errors, and failures of the transport and the file system.
\<close>

datatype error =
    NotLoggedOnError
  | SessionError pyval
  | Raised exception_class pyval
  | KeyError string
  | AttributeError string
  | NameError string
  | TypeError
  | ValueError
  | FileNotFoundError string
  | OtherError string

datatype http_method = GET | POST

text \<open>
  One call of \<^verbatim>\<open>session.get\<close> or \<^verbatim>\<open>session.post\<close>: the URL, the \<^verbatim>\<open>params\<close> (GET) or
  \<^verbatim>\<open>data\<close> (POST) dictionary, and the \<^verbatim>\<open>files\<close> dictionary of an upload.
\<close>

record request =
  req_method :: http_method
  req_url :: string
  req_params :: "(string \<times> pyval) list"
  req_files :: "(string \<times> pyval) list"

text \<open>
  A \<^verbatim>\<open>requests.Response\<close>: \<open>resp_text\<close> is \<^verbatim>\<open>response.text\<close>; \<open>resp_json\<close> is what
  \<^verbatim>\<open>response.json()\<close> returns, \<open>None\<close> when it raises because the body is not JSON.
\<close>

record response =
  resp_text :: string
  resp_json :: "pyval option"

section \<open>The response classifier\<close>

subsection \<open>\<^verbatim>\<open>str.splitlines\<close>\<close>

definition is_linebreak :: "char \<Rightarrow> bool" where
  "is_linebreak c =
     (c \<in> set [CHR 0x0A, CHR 0x0D, CHR 0x0B, CHR 0x0C, CHR 0x1C, CHR 0x1D, CHR 0x1E, CHR 0x85])"

fun splitlines_from :: "string \<Rightarrow> string \<Rightarrow> string list" where
  "splitlines_from line [] = (if line = [] then [] else [line])"
| "splitlines_from line [c] = (if is_linebreak c then [line] else [line @ [c]])"
| "splitlines_from line (c # c' # cs) =
     (if c = CHR 0x0D \<and> c' = CHR 0x0A then line # splitlines_from [] cs
      else if is_linebreak c then line # splitlines_from [] (c' # cs)
      else splitlines_from (line @ [c]) (c' # cs))"

definition splitlines :: "string \<Rightarrow> string list" where
  "splitlines s = splitlines_from [] s"

subsection \<open>The individual checks\<close>

definition login_js_line :: string where
  "login_js_line =
     ''  <script type='' @ [CHR 0x22] @ ''text/javascript'' @ [CHR 0x22] @ '' src='' @ [CHR 0x22]
       @ ''/js/azkaban/view/login.js'' @ [CHR 0x22] @ ''></script>''"

definition login_error_text :: string where
  "login_error_text = ''Login error. Need username and password''"

definition catch_login_html :: "response \<Rightarrow> error + unit" where
  "catch_login_html response =
     (if login_js_line \<in> set (splitlines (resp_text response))
      then Inl (SessionError (PStr (resp_text response)))
      else Inr ())"

definition catch_response_status_error :: "exception_class \<Rightarrow> pyval \<Rightarrow> error + unit" where
  "catch_response_status_error exception response_json =
     (case response_json of
        PDict kvs \<Rightarrow>
          (if map_of kvs ''status'' = Some (PStr ''error'')
           then (case map_of kvs ''message'' of
                   None \<Rightarrow> Inl (KeyError ''message'')
                 | Some error_msg \<Rightarrow> Inl (Raised exception error_msg))
           else Inr ())
      | _ \<Rightarrow> Inl (AttributeError ''get''))"

definition catch_response_error_msg :: "exception_class \<Rightarrow> pyval \<Rightarrow> error + unit" where
  "catch_response_error_msg exception response_json =
     (case response_json of
        PDict kvs \<Rightarrow>
          (case map_of kvs ''error'' of
             None \<Rightarrow> Inr ()
           | Some error_msg \<Rightarrow>
               (if error_msg = PStr ''session'' then Inl (SessionError error_msg)
                else Inl (Raised exception error_msg)))
      | _ \<Rightarrow> Inl (AttributeError ''keys''))"

definition catch_empty_response :: "exception_class \<Rightarrow> pyval \<Rightarrow> error + unit" where
  "catch_empty_response exception response_json =
     (if response_json = PDict [] then Inl (Raised exception (PStr ''Empty response''))
      else Inr ())"

definition catch_login_text :: "response \<Rightarrow> error + unit" where
  "catch_login_text response =
     (if resp_text response = login_error_text
      then Inl (SessionError (PStr (resp_text response)))
      else Inr ())"

text \<open>
  \<^verbatim>\<open>try: response_json = response.json() except Exception: response_json = {}\<close>
\<close>

definition decode_or_empty :: "response \<Rightarrow> pyval" where
  "decode_or_empty response = (case resp_json response of None \<Rightarrow> PDict [] | Some j \<Rightarrow> j)"

subsection \<open>The funnel\<close>

text \<open>
  The private methods are instrumented: entering one appends its name to a log, so that
  the order in which \<^verbatim>\<open>__catch_login\<close> and \<^verbatim>\<open>__catch_response_error\<close> call them can be
  stated. A computation takes the log and returns its result, or the exception it
  raises, with the extended log. \<open>BodyDecoding\<close> stands for the \<^verbatim>\<open>try\<close> block.
\<close>

datatype check =
    LoginTextCheck
  | LoginHtmlCheck
  | BodyDecoding
  | ErrorKeyCheck
  | StatusKeyCheck
  | EmptinessCheck

type_synonym 'a traced = "check list \<Rightarrow> (error + 'a) \<times> check list"

definition enter :: "check \<Rightarrow> error + 'a \<Rightarrow> 'a traced" where
  "enter c r log = (r, log @ [c])"

definition return_traced :: "'a \<Rightarrow> 'a traced" where
  "return_traced x log = (Inr x, log)"

definition bind_traced :: "'a traced \<Rightarrow> ('a \<Rightarrow> 'b traced) \<Rightarrow> 'b traced" where
  "bind_traced m f log =
     (case m log of
        (Inl e, log') \<Rightarrow> (Inl e, log')
      | (Inr x, log') \<Rightarrow> f x log')"

definition catch_login_traced :: "response \<Rightarrow> unit traced" where
  "catch_login_traced response =
     bind_traced (enter LoginTextCheck (catch_login_text response)) (\<lambda>_.
       enter LoginHtmlCheck (catch_login_html response))"

definition catch_response_error_traced ::
  "response \<Rightarrow> exception_class \<Rightarrow> bool \<Rightarrow> unit traced" where
  "catch_response_error_traced response exception ignore_empty_responses =
     bind_traced (catch_login_traced response) (\<lambda>_.
     bind_traced (enter BodyDecoding (Inr (decode_or_empty response))) (\<lambda>response_json.
     bind_traced (enter ErrorKeyCheck (catch_response_error_msg exception response_json)) (\<lambda>_.
     bind_traced
       (enter StatusKeyCheck (catch_response_status_error exception response_json)) (\<lambda>_.
       if \<not> ignore_empty_responses
       then enter EmptinessCheck (catch_empty_response exception response_json)
       else return_traced ()))))"

text \<open>
  What the methods of the class see of \<^verbatim>\<open>__catch_login\<close> and \<^verbatim>\<open>__catch_response_error\<close>:
  whether they return or raise.
\<close>

definition catch_login :: "response \<Rightarrow> error + unit" where
  "catch_login response = fst (catch_login_traced response [])"

definition catch_response_error :: "response \<Rightarrow> exception_class \<Rightarrow> bool \<Rightarrow> error + unit" where
  "catch_response_error response exception ignore_empty_responses =
     fst (catch_response_error_traced response exception ignore_empty_responses [])"

section \<open>The permission normalizer\<close>

text \<open>\<^verbatim>\<open>d[k]\<close> on a dictionary: \<^verbatim>\<open>KeyError\<close> when the key is missing.\<close>

definition dict_getitem :: "(string \<times> pyval) list \<Rightarrow> string \<Rightarrow> error + pyval" where
  "dict_getitem d k = (case map_of d k of None \<Rightarrow> Inl (KeyError k) | Some v \<Rightarrow> Inr v)"

text \<open>
  \<^verbatim>\<open>d[k1] and d[k2] and ...\<close>: Python's \<^verbatim>\<open>and\<close> returns its first falsy operand, else
  the last one, and does not evaluate the operands after a falsy one.
\<close>

fun and_items :: "(string \<times> pyval) list \<Rightarrow> string list \<Rightarrow> error + pyval" where
  "and_items d [] = Inr (PBool True)"
| "and_items d [k] = dict_getitem d k"
| "and_items d (k # ks) =
     (case dict_getitem d k of
        Inl e \<Rightarrow> Inl e
      | Inr v \<Rightarrow> (if truthy v then and_items d ks else Inr v))"

definition permission_option_names :: "string list" where
  "permission_option_names = [''admin'', ''write'', ''read'', ''execute'', ''schedule'']"

definition check_group_permissions ::
  "(string \<times> pyval) list \<Rightarrow> error + (string \<times> pyval) list" where
  "check_group_permissions permission_options =
     (let filled_permission_options =
            map (\<lambda>option.
                   (option,
                    case map_of permission_options option of
                      Some v \<Rightarrow> v
                    | None \<Rightarrow> PBool False))
                permission_option_names
      in case and_items filled_permission_options
                [''admin'', ''read'', ''write'', ''execute'', ''schedule''] of
           Inl e \<Rightarrow> Inl e
         | Inr have_declared_options \<Rightarrow>
             (case dict_getitem filled_permission_options ''admin'' of
                Inl e \<Rightarrow> Inl e
              | Inr admin \<Rightarrow>
                  (if truthy admin
                   then Inr (map (\<lambda>(option, _). (option, PBool True)) filled_permission_options)
                   else if \<not> truthy have_declared_options
                   then Inr (AList.update ''read'' (PBool True) filled_permission_options)
                   else Inr filled_permission_options)))"

section \<open>The client and its transport\<close>

text \<open>
  The instance attributes of \<^verbatim>\<open>Azkaban\<close>. \<open>self_session\<close> stands for the
  \<^verbatim>\<open>requests.Session\<close>: the list of the calls made through it, oldest first.
\<close>

record azkaban =
  self_host :: pyval
  self_user :: pyval
  self_session_id :: pyval
  self_session :: "request list"

text \<open>
  What lies outside the client: the server behind \<^verbatim>\<open>session.get\<close>/\<^verbatim>\<open>session.post\<close>
  (which may fail to connect), \<^verbatim>\<open>os.path.abspath\<close> and \<^verbatim>\<open>shutil.make_archive\<close>.
\<close>

record env =
  transport :: "request \<Rightarrow> error + response"
  abspath :: "string \<Rightarrow> string"
  make_archive :: "pyval \<Rightarrow> string \<Rightarrow> error + string"

text \<open>A method body: it reads and updates the instance and returns a value or raises.\<close>

type_synonym 'a action = "azkaban \<Rightarrow> (error + 'a) \<times> azkaban"

definition return_action :: "'a \<Rightarrow> 'a action" where
  "return_action x s = (Inr x, s)"

definition raise_action :: "error \<Rightarrow> 'a action" where
  "raise_action e s = (Inl e, s)"

definition pure_action :: "error + 'a \<Rightarrow> 'a action" where
  "pure_action r s = (r, s)"

definition get_self :: "azkaban action" where
  "get_self s = (Inr s, s)"

definition bind_action :: "'a action \<Rightarrow> ('a \<Rightarrow> 'b action) \<Rightarrow> 'b action" where
  "bind_action m f s =
     (case m s of
        (Inl e, s') \<Rightarrow> (Inl e, s')
      | (Inr x, s') \<Rightarrow> f x s')"

definition session_get :: "env \<Rightarrow> string \<Rightarrow> (string \<times> pyval) list \<Rightarrow> response action" where
  "session_get env url params s =
     (let req = \<lparr>req_method = GET, req_url = url, req_params = params, req_files = []\<rparr>
      in (transport env req, s\<lparr>self_session := self_session s @ [req]\<rparr>))"

definition session_post ::
  "env \<Rightarrow> string \<Rightarrow> (string \<times> pyval) list \<Rightarrow> (string \<times> pyval) list \<Rightarrow> response action" where
  "session_post env url data files s =
     (let req = \<lparr>req_method = POST, req_url = url, req_params = data, req_files = files\<rparr>
      in (transport env req, s\<lparr>self_session := self_session s @ [req]\<rparr>))"

text \<open>\<^verbatim>\<open>host + '/manager'\<close>: string concatenation, \<^verbatim>\<open>TypeError\<close> unless \<open>host\<close> is a string.\<close>

definition str_plus :: "pyval \<Rightarrow> string \<Rightarrow> error + string" where
  "str_plus v path = (case v of PStr h \<Rightarrow> Inr (h @ path) | _ \<Rightarrow> Inl TypeError)"

text \<open>\<^verbatim>\<open>data.update(execution_options)\<close>\<close>

definition dict_update ::
  "(string \<times> pyval) list \<Rightarrow> (string \<times> pyval) list \<Rightarrow> (string \<times> pyval) list" where
  "dict_update d other = fold (\<lambda>(k, v) acc. AList.update k v acc) other d"

text \<open>
  Passing \<^verbatim>\<open>**execution_options\<close> to a function raises \<^verbatim>\<open>TypeError\<close> when a key names
  one of its positional parameters.
\<close>

definition check_kwargs :: "string list \<Rightarrow> (string \<times> pyval) list \<Rightarrow> error + unit" where
  "check_kwargs positional kwargs =
     (if \<exists>k \<in> set (map fst kwargs). k \<in> set positional then Inl TypeError else Inr ())"

text \<open>\<^verbatim>\<open>os.path.basename\<close>\<close>

definition basename :: "string \<Rightarrow> string" where
  "basename p = rev (takeWhile (\<lambda>c. c \<noteq> CHR ''/'') (rev p))"


section \<open>The request builders of \<^verbatim>\<open>azkaban_cli.api\<close>\<close>

text \<open>
  Each builder makes one call of the session and returns the response as it is. The
  recorded dictionary is the one handed to \<^verbatim>\<open>requests\<close>. Opening the archive in
  \<^verbatim>\<open>upload_request\<close> is taken to succeed; the open file is represented by its path.
  Names follow the source, except where HOL owns the name: the parameters \<^verbatim>\<open>length\<close>
  and \<^verbatim>\<open>group\<close> are \<open>len\<close> and \<open>group_name\<close>, and \<^verbatim>\<open>api.resume_flow_execution\<close> is
  \<open>resume_flow_execution_request\<close>, since the method of the class has the same name.
  Type annotations of the source are not part of the model.
\<close>

definition upload_request ::
  "env \<Rightarrow> pyval \<Rightarrow> pyval \<Rightarrow> pyval \<Rightarrow> string \<Rightarrow> response action" where
  "upload_request env host session_id project zip_path =
     (let zip_name = basename zip_path in
      bind_action (pure_action (str_plus host ''/manager'')) (\<lambda>url.
        session_post env url
             [(''session.id'', session_id),
              (''ajax'', PStr ''upload''),
              (''project'', project)]
             [(''file'', PList [PStr zip_name, PStr zip_path, PStr ''application/zip''])]))"

definition login_request :: "env \<Rightarrow> string \<Rightarrow> pyval \<Rightarrow> pyval \<Rightarrow> response action" where
  "login_request env host user password =
     session_post env host
          [(''action'', PStr ''login''),
           (''username'', user),
           (''password'', password)]
          []"

definition schedule_request ::
  "env \<Rightarrow> pyval \<Rightarrow> pyval \<Rightarrow> pyval \<Rightarrow> pyval \<Rightarrow> pyval \<Rightarrow> (string \<times> pyval) list
     \<Rightarrow> response action" where
  "schedule_request env host session_id project flow cron execution_options =
     bind_action
       (pure_action
          (check_kwargs [''session'', ''host'', ''session_id'', ''project'', ''flow'', ''cron'']
             execution_options)) (\<lambda>_.
     (let data = dict_update
                   [(''session.id'', session_id),
                    (''ajax'', PStr ''scheduleCronFlow''),
                    (''projectName'', project),
                    (''flow'', flow),
                    (''cronExpression'', cron)]
                   execution_options in
      bind_action (pure_action (str_plus host ''/schedule'')) (\<lambda>url.
        session_post env url data [])))"

definition fetch_flows_request ::
  "env \<Rightarrow> pyval \<Rightarrow> pyval \<Rightarrow> pyval \<Rightarrow> response action" where
  "fetch_flows_request env host session_id project =
     bind_action (pure_action (str_plus host ''/manager'')) (\<lambda>url.
       session_get env url
            [(''session.id'', session_id),
             (''ajax'', PStr ''fetchprojectflows''),
             (''project'', project)])"

text \<open>
  \<^verbatim>\<open>fetch_executions_of_a_flow_request(session, session_id, project, flow, start, length)\<close>
  has no \<^verbatim>\<open>host\<close> parameter, and \<^verbatim>\<open>api.py\<close> binds no module-level \<^verbatim>\<open>host\<close> (it binds
  \<^verbatim>\<open>logging\<close>, \<^verbatim>\<open>os\<close> and its own functions). The first expression evaluated in the
  body, \<^verbatim>\<open>host + '/manager'\<close>, therefore raises \<^verbatim>\<open>NameError\<close> before \<^verbatim>\<open>session.get\<close>
  is called.
\<close>

definition fetch_executions_of_a_flow_request ::
  "env \<Rightarrow> pyval \<Rightarrow> pyval \<Rightarrow> pyval \<Rightarrow> pyval \<Rightarrow> pyval \<Rightarrow> response action" where
  "fetch_executions_of_a_flow_request env session_id project flow start len =
     bind_action (raise_action (NameError ''host'')) (\<lambda>host.
     bind_action (pure_action (str_plus host ''/manager'')) (\<lambda>url.
       session_get env url
            [(''session.id'', session_id),
             (''ajax'', PStr ''fetchFlowExecutions''),
             (''project'', project),
             (''flow'', flow),
             (''start'', start),
             (''length'', len)]))"

definition fetch_jobs_from_flow_request ::
  "env \<Rightarrow> pyval \<Rightarrow> pyval \<Rightarrow> pyval \<Rightarrow> pyval \<Rightarrow> response action" where
  "fetch_jobs_from_flow_request env host session_id project flow =
     bind_action (pure_action (str_plus host ''/manager'')) (\<lambda>url.
       session_get env url
            [(''session.id'', session_id),
             (''ajax'', PStr ''fetchflowgraph''),
             (''project'', project),
             (''flow'', flow)])"

definition fetch_schedule_request ::
  "env \<Rightarrow> pyval \<Rightarrow> pyval \<Rightarrow> pyval \<Rightarrow> pyval \<Rightarrow> response action" where
  "fetch_schedule_request env host session_id project_id flow =
     bind_action (pure_action (str_plus host ''/schedule'')) (\<lambda>url.
       session_get env url
            [(''session.id'', session_id),
             (''ajax'', PStr ''fetchSchedule''),
             (''projectId'', project_id),
             (''flowId'', flow)])"

definition unschedule_request ::
  "env \<Rightarrow> pyval \<Rightarrow> pyval \<Rightarrow> pyval \<Rightarrow> response action" where
  "unschedule_request env host session_id schedule_id =
     bind_action (pure_action (str_plus host ''/schedule'')) (\<lambda>url.
       session_post env url
            [(''session.id'', session_id),
             (''action'', PStr ''removeSched''),
             (''scheduleId'', schedule_id)]
            [])"

definition execute_request ::
  "env \<Rightarrow> pyval \<Rightarrow> pyval \<Rightarrow> pyval \<Rightarrow> pyval \<Rightarrow> (string \<times> pyval) list \<Rightarrow> response action" where
  "execute_request env host session_id project flow execution_options =
     bind_action
       (pure_action
          (check_kwargs [''session'', ''host'', ''session_id'', ''project'', ''flow'']
             execution_options)) (\<lambda>_.
     (let params = dict_update
                     [(''session.id'', session_id),
                      (''ajax'', PStr ''executeFlow''),
                      (''project'', project),
                      (''flow'', flow)]
                     execution_options in
      bind_action (pure_action (str_plus host ''/executor'')) (\<lambda>url.
        session_get env url params)))"

definition cancel_request ::
  "env \<Rightarrow> pyval \<Rightarrow> pyval \<Rightarrow> pyval \<Rightarrow> response action" where
  "cancel_request env host session_id exec_id =
     bind_action (pure_action (str_plus host ''/executor'')) (\<lambda>url.
       session_get env url
            [(''session.id'', session_id),
             (''ajax'', PStr ''cancelFlow''),
             (''execid'', exec_id)])"

definition create_request ::
  "env \<Rightarrow> pyval \<Rightarrow> pyval \<Rightarrow> pyval \<Rightarrow> pyval \<Rightarrow> response action" where
  "create_request env host session_id project description =
     bind_action (pure_action (str_plus host ''/manager'')) (\<lambda>url.
       session_post env url
            [(''session.id'', session_id),
             (''action'', PStr ''create''),
             (''name'', project),
             (''description'', description)]
            [])"

definition delete_request ::
  "env \<Rightarrow> pyval \<Rightarrow> pyval \<Rightarrow> pyval \<Rightarrow> response action" where
  "delete_request env host session_id project =
     bind_action (pure_action (str_plus host ''/manager'')) (\<lambda>url.
       session_get env url
            [(''session.id'', session_id),
             (''delete'', PStr ''true''),
             (''project'', project)])"

definition fetch_projects_request ::
  "env \<Rightarrow> pyval \<Rightarrow> pyval \<Rightarrow> response action" where
  "fetch_projects_request env host session_id  =
     bind_action (pure_action (str_plus host ''/index?all'')) (\<lambda>url.
       session_get env url
            [(''session.id'', session_id)])"

definition call_permission_api ::
  "env \<Rightarrow> pyval \<Rightarrow> pyval \<Rightarrow> string \<Rightarrow> pyval \<Rightarrow> pyval \<Rightarrow> (string \<times> pyval) list
     \<Rightarrow> response action" where
  "call_permission_api env host session_id operation project group_name permission_options =
     bind_action (pure_action (str_plus host ''/manager'')) (\<lambda>url.
     bind_action (pure_action (dict_getitem permission_options ''admin'')) (\<lambda>admin.
     bind_action (pure_action (dict_getitem permission_options ''write'')) (\<lambda>write.
     bind_action (pure_action (dict_getitem permission_options ''read'')) (\<lambda>read.
     bind_action (pure_action (dict_getitem permission_options ''execute'')) (\<lambda>execute.
     bind_action (pure_action (dict_getitem permission_options ''schedule'')) (\<lambda>schedule.
       session_get env url
            [(''session.id'', session_id),
             (''ajax'', PStr operation),
             (''project'', project),
             (''name'', group_name),
             (''permissions[admin]'', admin),
             (''permissions[write]'', write),
             (''permissions[read]'', read),
             (''permissions[execute]'', execute),
             (''permissions[schedule]'', schedule),
             (''group'', PBool True)]))))))"

definition add_permission_request ::
  "env \<Rightarrow> pyval \<Rightarrow> pyval \<Rightarrow> pyval \<Rightarrow> pyval \<Rightarrow> (string \<times> pyval) list \<Rightarrow> response action" where
  "add_permission_request env host session_id project group_name permission_options =
     call_permission_api env host session_id ''addPermission'' project group_name permission_options"

definition remove_permission_request ::
  "env \<Rightarrow> pyval \<Rightarrow> pyval \<Rightarrow> pyval \<Rightarrow> pyval \<Rightarrow> response action" where
  "remove_permission_request env host session_id project group_name =
     (let permission_options =
            [(''admin'', PBool False), (''read'', PBool False), (''write'', PBool False),
             (''execute'', PBool False), (''schedule'', PBool False)]
      in call_permission_api env host session_id ''changePermission'' project group_name
           permission_options)"

definition change_permission_request ::
  "env \<Rightarrow> pyval \<Rightarrow> pyval \<Rightarrow> pyval \<Rightarrow> pyval \<Rightarrow> (string \<times> pyval) list \<Rightarrow> response action" where
  "change_permission_request env host session_id project group_name permission_options =
     call_permission_api env host session_id ''changePermission'' project group_name
       permission_options"

definition fetch_sla_request ::
  "env \<Rightarrow> pyval \<Rightarrow> pyval \<Rightarrow> pyval \<Rightarrow> response action" where
  "fetch_sla_request env host session_id schedule_id =
     bind_action (pure_action (str_plus host ''/schedule'')) (\<lambda>url.
       session_get env url
            [(''session.id'', session_id),
             (''ajax'', PStr ''slaInfo''),
             (''scheduleId'', schedule_id)])"

definition fetch_flow_execution_request ::
  "env \<Rightarrow> pyval \<Rightarrow> pyval \<Rightarrow> pyval \<Rightarrow> response action" where
  "fetch_flow_execution_request env host session_id exec_id =
     bind_action (pure_action (str_plus host ''/executor'')) (\<lambda>url.
       session_get env url
            [(''session.id'', session_id),
             (''ajax'', PStr ''fetchexecflow''),
             (''execid'', exec_id)])"

definition fetch_flow_execution_updates_request ::
  "env \<Rightarrow> pyval \<Rightarrow> pyval \<Rightarrow> pyval \<Rightarrow> pyval \<Rightarrow> response action" where
  "fetch_flow_execution_updates_request env host session_id exec_id last_update_time =
     bind_action (pure_action (str_plus host ''/executor'')) (\<lambda>url.
       session_get env url
            [(''session.id'', session_id),
             (''ajax'', PStr ''fetchexecflowupdate''),
             (''execid'', exec_id),
             (''lastUpdateTime'', last_update_time)])"

definition fetch_execution_job_log_request ::
  "env \<Rightarrow> pyval \<Rightarrow> pyval \<Rightarrow> pyval \<Rightarrow> pyval \<Rightarrow> pyval \<Rightarrow> pyval \<Rightarrow> response action" where
  "fetch_execution_job_log_request env host session_id exec_id jobid offset len =
     bind_action (pure_action (str_plus host ''/executor'')) (\<lambda>url.
       session_get env url
            [(''session.id'', session_id),
             (''ajax'', PStr ''fetchExecJobLogs''),
             (''execid'', exec_id),
             (''jobId'', jobid),
             (''offset'', offset),
             (''length'', len)])"

definition resume_flow_execution_request ::
  "env \<Rightarrow> pyval \<Rightarrow> pyval \<Rightarrow> pyval \<Rightarrow> response action" where
  "resume_flow_execution_request env host session_id exec_id =
     bind_action (pure_action (str_plus host ''/executor'')) (\<lambda>url.
       session_get env url
            [(''session.id'', session_id),
             (''ajax'', PStr ''resumeFlow''),
             (''execid'', exec_id)])"

definition fetch_running_executions_of_a_flow_request ::
  "env \<Rightarrow> pyval \<Rightarrow> pyval \<Rightarrow> pyval \<Rightarrow> pyval \<Rightarrow> response action" where
  "fetch_running_executions_of_a_flow_request env host session_id project flow =
     bind_action (pure_action (str_plus host ''/executor'')) (\<lambda>url.
       session_get env url
            [(''session.id'', session_id),
             (''ajax'', PStr ''getRunning''),
             (''project'', project),
             (''flow'', flow)])"


section \<open>The class \<^verbatim>\<open>Azkaban\<close>\<close>

text \<open>\<^verbatim>\<open>Azkaban()\<close>: no host, no user, no session id, nothing sent yet.\<close>

definition init_azkaban :: azkaban where
  "init_azkaban =
     \<lparr>self_host = PNone, self_user = PNone, self_session_id = PNone, self_session = []\<rparr>"

function validate_host :: "string \<Rightarrow> string" where
  "validate_host valid_host =
     (if valid_host \<noteq> [] \<and> last valid_host = CHR ''/''
      then validate_host (butlast valid_host)
      else valid_host)"
  by pat_completeness auto
termination
  by (relation "measure length") auto

declare validate_host.simps [simp del]

definition check_if_logged :: "unit action" where
  "check_if_logged =
     bind_action get_self (\<lambda>self.
       if \<not> truthy (self_session_id self) then raise_action NotLoggedOnError
       else return_action ())"

text \<open>\<^verbatim>\<open>response.json()\<close> outside a \<^verbatim>\<open>try\<close>, and \<^verbatim>\<open>v[key]\<close> on its result.\<close>

definition response_json_of :: "response \<Rightarrow> error + pyval" where
  "response_json_of response =
     (case resp_json response of None \<Rightarrow> Inl ValueError | Some j \<Rightarrow> Inr j)"

definition py_getitem :: "pyval \<Rightarrow> string \<Rightarrow> error + pyval" where
  "py_getitem v k = (case v of PDict d \<Rightarrow> dict_getitem d k | _ \<Rightarrow> Inl TypeError)"

definition get_logged_session :: "pyval action" where
  "get_logged_session =
     bind_action get_self (\<lambda>self.
       return_action
         (PDict [(''host'', self_host self),
                 (''user'', self_user self),
                 (''session_id'', self_session_id self)]))"

definition set_logged_session :: "pyval \<Rightarrow> pyval \<Rightarrow> pyval \<Rightarrow> pyval action" where
  "set_logged_session host user session_id s =
     (Inr PNone, s\<lparr>self_host := host, self_user := user, self_session_id := session_id\<rparr>)"

definition logout :: "pyval action" where
  "logout = set_logged_session PNone PNone PNone"

definition login :: "env \<Rightarrow> string \<Rightarrow> pyval \<Rightarrow> pyval \<Rightarrow> pyval action" where
  "login env host user password =
     (let valid_host = validate_host host in
      bind_action (login_request env valid_host user password) (\<lambda>response.
      bind_action (pure_action (catch_response_error response LoginError False)) (\<lambda>_.
      bind_action (pure_action (response_json_of response)) (\<lambda>response_json.
      bind_action (pure_action (py_getitem response_json ''session.id'')) (\<lambda>session_id.
        set_logged_session (PStr valid_host) user session_id)))))"

text \<open>
  \<^verbatim>\<open>upload\<close>: a \<^verbatim>\<open>FileNotFoundError\<close> of \<^verbatim>\<open>make_archive\<close> becomes an \<^verbatim>\<open>UploadError\<close>
  carrying its text; removing the archive afterwards is taken to succeed.
\<close>

definition make_archive_or_upload_error :: "env \<Rightarrow> pyval \<Rightarrow> string \<Rightarrow> error + string" where
  "make_archive_or_upload_error env zip_name path =
     (case make_archive env zip_name path of
        Inl (FileNotFoundError e) \<Rightarrow> Inl (Raised UploadError (PStr e))
      | r \<Rightarrow> r)"

definition upload :: "env \<Rightarrow> string \<Rightarrow> pyval \<Rightarrow> pyval \<Rightarrow> pyval action" where
  "upload env path project zip_name =
     bind_action check_if_logged (\<lambda>_.
     (let project = (if \<not> truthy project then PStr (basename (abspath env path)) else project);
          zip_name = (if \<not> truthy zip_name then project else zip_name) in
      bind_action (pure_action (make_archive_or_upload_error env zip_name path)) (\<lambda>zip_path.
      bind_action get_self (\<lambda>self.
      bind_action
        (upload_request env (self_host self) (self_session_id self) project zip_path)
        (\<lambda>response.
      bind_action (pure_action (catch_response_error response UploadError False)) (\<lambda>_.
      bind_action (pure_action (response_json_of response)) (\<lambda>response_json.
      bind_action (pure_action (py_getitem response_json ''version'')) (\<lambda>_.
        return_action PNone))))))))"

text \<open>
  \<^verbatim>\<open>schedule\<close> and \<^verbatim>\<open>execute\<close> collect keyword arguments in \<^verbatim>\<open>**execution_options\<close>. A
  keyword that names one of the method's own parameters does not bind: the call raises
  \<^verbatim>\<open>TypeError\<close> before the body runs, so before \<^verbatim>\<open>__check_if_logged\<close>.
\<close>

definition truthy_items :: "(string \<times> pyval) list \<Rightarrow> (string \<times> pyval) list" where
  "truthy_items execution_options = filter (\<lambda>(k, v). truthy v) execution_options"

definition schedule ::
  "env \<Rightarrow> pyval \<Rightarrow> pyval \<Rightarrow> pyval \<Rightarrow> (string \<times> pyval) list \<Rightarrow> pyval action" where
  "schedule env project flow cron execution_options =
     bind_action
       (pure_action (check_kwargs [''self'', ''project'', ''flow'', ''cron''] execution_options))
       (\<lambda>_.
     bind_action check_if_logged (\<lambda>_.
     bind_action get_self (\<lambda>self.
     bind_action
       (schedule_request env (self_host self) (self_session_id self) project flow cron
          (truthy_items execution_options))
       (\<lambda>response.
     bind_action (pure_action (catch_response_error response ScheduleError False)) (\<lambda>_.
     bind_action (pure_action (response_json_of response)) (\<lambda>response_json.
     bind_action (pure_action (py_getitem response_json ''message'')) (\<lambda>_.
     bind_action (pure_action (py_getitem response_json ''scheduleId'')) (\<lambda>_.
       return_action PNone))))))))"

definition fetch_flows ::
  "env \<Rightarrow> pyval \<Rightarrow> pyval action" where
  "fetch_flows env project =
     bind_action check_if_logged (\<lambda>_.
     bind_action get_self (\<lambda>self.
     bind_action
       (fetch_flows_request env (self_host self) (self_session_id self) project)
       (\<lambda>response.
     bind_action (pure_action (catch_response_error response FetchFlowsError False)) (\<lambda>_.
     bind_action (pure_action (response_json_of response)) (\<lambda>response_json.
     bind_action (pure_action (py_getitem response_json ''projectId'')) (\<lambda>_.
       return_action response_json))))))"

definition fetch_jobs_from_flow ::
  "env \<Rightarrow> pyval \<Rightarrow> pyval \<Rightarrow> pyval action" where
  "fetch_jobs_from_flow env project flow =
     bind_action check_if_logged (\<lambda>_.
     bind_action get_self (\<lambda>self.
     bind_action
       (fetch_jobs_from_flow_request env (self_host self) (self_session_id self) project flow)
       (\<lambda>response.
     bind_action (pure_action (catch_response_error response FetchJobsFromFlowError False)) (\<lambda>_.
       pure_action (response_json_of response)))))"

definition fetch_schedule ::
  "env \<Rightarrow> pyval \<Rightarrow> pyval \<Rightarrow> pyval action" where
  "fetch_schedule env project_id flow =
     bind_action check_if_logged (\<lambda>_.
     bind_action get_self (\<lambda>self.
     bind_action
       (fetch_schedule_request env (self_host self) (self_session_id self) project_id flow)
       (\<lambda>response.
     bind_action (pure_action (catch_response_error response FetchScheduleError False)) (\<lambda>_.
     bind_action (pure_action (response_json_of response)) (\<lambda>response_json.
     bind_action (pure_action (py_getitem response_json ''schedule'')) (\<lambda>sched.
     bind_action (pure_action (py_getitem sched ''scheduleId'')) (\<lambda>_.
       return_action response_json)))))))"

definition unschedule ::
  "env \<Rightarrow> pyval \<Rightarrow> pyval action" where
  "unschedule env schedule_id =
     bind_action check_if_logged (\<lambda>_.
     bind_action get_self (\<lambda>self.
     bind_action
       (unschedule_request env (self_host self) (self_session_id self) schedule_id)
       (\<lambda>response.
     bind_action (pure_action (catch_response_error response UnscheduleError False)) (\<lambda>_.
     bind_action (pure_action (response_json_of response)) (\<lambda>response_json.
     bind_action (pure_action (py_getitem response_json ''message'')) (\<lambda>_.
       return_action PNone))))))"

definition execute ::
  "env \<Rightarrow> pyval \<Rightarrow> pyval \<Rightarrow> (string \<times> pyval) list \<Rightarrow> pyval action" where
  "execute env project flow execution_options =
     bind_action
       (pure_action (check_kwargs [''self'', ''project'', ''flow''] execution_options))
       (\<lambda>_.
     bind_action check_if_logged (\<lambda>_.
     bind_action get_self (\<lambda>self.
     bind_action
       (execute_request env (self_host self) (self_session_id self) project flow
          (truthy_items execution_options))
       (\<lambda>response.
     bind_action (pure_action (catch_response_error response ExecuteError False)) (\<lambda>_.
     bind_action (pure_action (response_json_of response)) (\<lambda>response_json.
     bind_action (pure_action (py_getitem response_json ''message'')) (\<lambda>_.
       return_action PNone)))))))"

definition cancel ::
  "env \<Rightarrow> pyval \<Rightarrow> pyval action" where
  "cancel env execution_id =
     bind_action check_if_logged (\<lambda>_.
     bind_action get_self (\<lambda>self.
     bind_action
       (cancel_request env (self_host self) (self_session_id self) execution_id)
       (\<lambda>response.
     bind_action (pure_action (catch_response_error response CancelError False)) (\<lambda>_.
       return_action PNone))))"

definition create ::
  "env \<Rightarrow> pyval \<Rightarrow> pyval \<Rightarrow> pyval action" where
  "create env project description =
     bind_action check_if_logged (\<lambda>_.
     bind_action get_self (\<lambda>self.
     bind_action
       (create_request env (self_host self) (self_session_id self) project description)
       (\<lambda>response.
     bind_action (pure_action (catch_response_error response CreateError False)) (\<lambda>_.
       return_action PNone))))"

text \<open>\<^verbatim>\<open>delete\<close> drops the response: "The delete request does not return any message".\<close>

definition delete ::
  "env \<Rightarrow> pyval \<Rightarrow> pyval action" where
  "delete env project =
     bind_action check_if_logged (\<lambda>_.
     bind_action get_self (\<lambda>self.
     bind_action
       (delete_request env (self_host self) (self_session_id self) project)
       (\<lambda>response.
       return_action PNone)))"

text \<open>
  \<^verbatim>\<open>fetch_projects\<close>: "The fetch projects request returns an html content, so we only
  catch login errors".
\<close>

definition fetch_projects ::
  "env \<Rightarrow> pyval action" where
  "fetch_projects env  =
     bind_action check_if_logged (\<lambda>_.
     bind_action get_self (\<lambda>self.
     bind_action
       (fetch_projects_request env (self_host self) (self_session_id self))
       (\<lambda>response.
     bind_action (pure_action (catch_login response)) (\<lambda>_.
       return_action (PStr (resp_text response))))))"

definition add_permission ::
  "env \<Rightarrow> pyval \<Rightarrow> pyval \<Rightarrow> (string \<times> pyval) list \<Rightarrow> pyval action" where
  "add_permission env project group_name permission_options =
     bind_action check_if_logged (\<lambda>_.
     bind_action (pure_action (check_group_permissions permission_options)) (\<lambda>permission_options.
     bind_action get_self (\<lambda>self.
     bind_action
       (add_permission_request env (self_host self) (self_session_id self) project group_name
          permission_options)
       (\<lambda>response.
     bind_action (pure_action (catch_response_error response AddPermissionError True)) (\<lambda>_.
       return_action PNone)))))"

definition remove_permission ::
  "env \<Rightarrow> pyval \<Rightarrow> pyval \<Rightarrow> pyval action" where
  "remove_permission env project group_name =
     bind_action check_if_logged (\<lambda>_.
     bind_action get_self (\<lambda>self.
     bind_action
       (remove_permission_request env (self_host self) (self_session_id self) project group_name)
       (\<lambda>response.
     bind_action (pure_action (catch_response_error response RemovePermissionError True)) (\<lambda>_.
       return_action PNone))))"

definition change_permission ::
  "env \<Rightarrow> pyval \<Rightarrow> pyval \<Rightarrow> (string \<times> pyval) list \<Rightarrow> pyval action" where
  "change_permission env project group_name permission_options =
     bind_action check_if_logged (\<lambda>_.
     bind_action (pure_action (check_group_permissions permission_options)) (\<lambda>permission_options.
     bind_action get_self (\<lambda>self.
     bind_action
       (change_permission_request env (self_host self) (self_session_id self) project group_name
          permission_options)
       (\<lambda>response.
     bind_action (pure_action (catch_response_error response ChangePermissionError True)) (\<lambda>_.
       return_action PNone)))))"

definition fetch_sla ::
  "env \<Rightarrow> pyval \<Rightarrow> pyval action" where
  "fetch_sla env schedule_id =
     bind_action check_if_logged (\<lambda>_.
     bind_action get_self (\<lambda>self.
     bind_action
       (fetch_sla_request env (self_host self) (self_session_id self) schedule_id)
       (\<lambda>response.
     bind_action (pure_action (catch_response_error response FetchSLAError False)) (\<lambda>_.
       pure_action (response_json_of response)))))"

definition fetch_flow_execution ::
  "env \<Rightarrow> pyval \<Rightarrow> pyval action" where
  "fetch_flow_execution env execution_id =
     bind_action check_if_logged (\<lambda>_.
     bind_action get_self (\<lambda>self.
     bind_action
       (fetch_flow_execution_request env (self_host self) (self_session_id self) execution_id)
       (\<lambda>response.
     bind_action (pure_action (catch_response_error response FetchFlowExecutionError False)) (\<lambda>_.
       pure_action (response_json_of response)))))"

definition fetch_flow_execution_updates ::
  "env \<Rightarrow> pyval \<Rightarrow> pyval \<Rightarrow> pyval action" where
  "fetch_flow_execution_updates env execution_id last_update_time =
     bind_action check_if_logged (\<lambda>_.
     bind_action get_self (\<lambda>self.
     bind_action
       (fetch_flow_execution_updates_request env (self_host self) (self_session_id self)
          execution_id last_update_time)
       (\<lambda>response.
     bind_action (pure_action (catch_response_error response FetchFlowExecutionUpdatesError False)) (\<lambda>_.
       pure_action (response_json_of response)))))"

definition fetch_executions_of_a_flow ::
  "env \<Rightarrow> pyval \<Rightarrow> pyval \<Rightarrow> pyval \<Rightarrow> pyval \<Rightarrow> pyval action" where
  "fetch_executions_of_a_flow env project flow start len =
     bind_action check_if_logged (\<lambda>_.
     bind_action get_self (\<lambda>self.
     bind_action
       (fetch_executions_of_a_flow_request env (self_session_id self)
          project flow start len)
       (\<lambda>response.
     bind_action (pure_action (catch_response_error response FetchExecutionsOfAFlowError False)) (\<lambda>_.
       pure_action (response_json_of response)))))"

definition fetch_execution_job_log ::
  "env \<Rightarrow> pyval \<Rightarrow> pyval \<Rightarrow> pyval \<Rightarrow> pyval \<Rightarrow> pyval action" where
  "fetch_execution_job_log env execution_id jobid offset len =
     bind_action check_if_logged (\<lambda>_.
     bind_action get_self (\<lambda>self.
     bind_action
       (fetch_execution_job_log_request env (self_host self) (self_session_id self)
          execution_id jobid offset len)
       (\<lambda>response.
     bind_action (pure_action (catch_response_error response FetchExecutionJobsLogError False)) (\<lambda>_.
       pure_action (response_json_of response)))))"

definition resume_flow_execution ::
  "env \<Rightarrow> pyval \<Rightarrow> pyval action" where
  "resume_flow_execution env execution_id =
     bind_action check_if_logged (\<lambda>_.
     bind_action get_self (\<lambda>self.
     bind_action
       (resume_flow_execution_request env (self_host self) (self_session_id self) execution_id)
       (\<lambda>response.
     bind_action (pure_action (catch_response_error response ResumeFlowExecutionError True)) (\<lambda>_.
       pure_action (response_json_of response)))))"

definition fetch_running_executions_of_a_flow ::
  "env \<Rightarrow> pyval \<Rightarrow> pyval \<Rightarrow> pyval action" where
  "fetch_running_executions_of_a_flow env project flow =
     bind_action check_if_logged (\<lambda>_.
     bind_action get_self (\<lambda>self.
     bind_action
       (fetch_running_executions_of_a_flow_request env (self_host self) (self_session_id self)
          project flow)
       (\<lambda>response.
     bind_action (pure_action (catch_response_error response FetchRunningExecutionsOfAFlowError False)) (\<lambda>_.
       pure_action (response_json_of response)))))"


section \<open>Operations as data\<close>

text \<open>
  One constructor for each method of the class that talks to the server, with the
  method's arguments; \<open>invoke\<close> calls the method. This is how a statement quantifies
  over "every operation".
\<close>

datatype operation =
    Login string pyval pyval
  | Upload string pyval pyval
  | Schedule pyval pyval pyval "(string \<times> pyval) list"
  | FetchFlows pyval
  | FetchJobsFromFlow pyval pyval
  | FetchSchedule pyval pyval
  | Unschedule pyval
  | Execute pyval pyval "(string \<times> pyval) list"
  | Cancel pyval
  | Create pyval pyval
  | Delete pyval
  | FetchProjects
  | AddPermission pyval pyval "(string \<times> pyval) list"
  | RemovePermission pyval pyval
  | ChangePermission pyval pyval "(string \<times> pyval) list"
  | FetchSLA pyval
  | FetchFlowExecution pyval
  | FetchFlowExecutionUpdates pyval pyval
  | FetchExecutionsOfAFlow pyval pyval pyval pyval
  | FetchExecutionJobLog pyval pyval pyval pyval
  | ResumeFlowExecution pyval
  | FetchRunningExecutionsOfAFlow pyval pyval

fun invoke :: "env \<Rightarrow> operation \<Rightarrow> pyval action" where
  "invoke env (Login host user password) = login env host user password"
| "invoke env (Upload path project zip_name) = upload env path project zip_name"
| "invoke env (Schedule project flow cron execution_options) =
     schedule env project flow cron execution_options"
| "invoke env (FetchFlows project) = fetch_flows env project"
| "invoke env (FetchJobsFromFlow project flow) = fetch_jobs_from_flow env project flow"
| "invoke env (FetchSchedule project_id flow) = fetch_schedule env project_id flow"
| "invoke env (Unschedule schedule_id) = unschedule env schedule_id"
| "invoke env (Execute project flow execution_options) =
     execute env project flow execution_options"
| "invoke env (Cancel execution_id) = cancel env execution_id"
| "invoke env (Create project description) = create env project description"
| "invoke env (Delete project) = delete env project"
| "invoke env FetchProjects = fetch_projects env"
| "invoke env (AddPermission project group_name permission_options) =
     add_permission env project group_name permission_options"
| "invoke env (RemovePermission project group_name) = remove_permission env project group_name"
| "invoke env (ChangePermission project group_name permission_options) =
     change_permission env project group_name permission_options"
| "invoke env (FetchSLA schedule_id) = fetch_sla env schedule_id"
| "invoke env (FetchFlowExecution execution_id) = fetch_flow_execution env execution_id"
| "invoke env (FetchFlowExecutionUpdates execution_id last_update_time) =
     fetch_flow_execution_updates env execution_id last_update_time"
| "invoke env (FetchExecutionsOfAFlow project flow start len) =
     fetch_executions_of_a_flow env project flow start len"
| "invoke env (FetchExecutionJobLog execution_id jobid offset len) =
     fetch_execution_job_log env execution_id jobid offset len"
| "invoke env (ResumeFlowExecution execution_id) = resume_flow_execution env execution_id"
| "invoke env (FetchRunningExecutionsOfAFlow project flow) =
     fetch_running_executions_of_a_flow env project flow"

text \<open>
  What each method hands to \<^verbatim>\<open>__catch_response_error\<close>: the exception class and the
  value of \<^verbatim>\<open>ignore_empty_responses\<close>; \<open>None\<close> for the two methods that do not call it.
\<close>

fun classifier_args :: "operation \<Rightarrow> (exception_class \<times> bool) option" where
  "classifier_args (Login _ _ _) = Some (LoginError, False)"
| "classifier_args (Upload _ _ _) = Some (UploadError, False)"
| "classifier_args (Schedule _ _ _ _) = Some (ScheduleError, False)"
| "classifier_args (FetchFlows _) = Some (FetchFlowsError, False)"
| "classifier_args (FetchJobsFromFlow _ _) = Some (FetchJobsFromFlowError, False)"
| "classifier_args (FetchSchedule _ _) = Some (FetchScheduleError, False)"
| "classifier_args (Unschedule _) = Some (UnscheduleError, False)"
| "classifier_args (Execute _ _ _) = Some (ExecuteError, False)"
| "classifier_args (Cancel _) = Some (CancelError, False)"
| "classifier_args (Create _ _) = Some (CreateError, False)"
| "classifier_args (Delete _) = None"
| "classifier_args FetchProjects = None"
| "classifier_args (AddPermission _ _ _) = Some (AddPermissionError, True)"
| "classifier_args (RemovePermission _ _) = Some (RemovePermissionError, True)"
| "classifier_args (ChangePermission _ _ _) = Some (ChangePermissionError, True)"
| "classifier_args (FetchSLA _) = Some (FetchSLAError, False)"
| "classifier_args (FetchFlowExecution _) = Some (FetchFlowExecutionError, False)"
| "classifier_args (FetchFlowExecutionUpdates _ _) = Some (FetchFlowExecutionUpdatesError, False)"
| "classifier_args (FetchExecutionsOfAFlow _ _ _ _) = Some (FetchExecutionsOfAFlowError, False)"
| "classifier_args (FetchExecutionJobLog _ _ _ _) = Some (FetchExecutionJobsLogError, False)"
| "classifier_args (ResumeFlowExecution _) = Some (ResumeFlowExecutionError, True)"
| "classifier_args (FetchRunningExecutionsOfAFlow _ _) =
     Some (FetchRunningExecutionsOfAFlowError, False)"

text \<open>
  The transport spy: the calls an invocation adds to the session, and the statement
  that it made exactly one call, which the server answered with \<open>r\<close>.
\<close>

definition new_calls :: "env \<Rightarrow> operation \<Rightarrow> azkaban \<Rightarrow> request list" where
  "new_calls env c s = drop (length (self_session s)) (self_session (snd (invoke env c s)))"

definition answered_with :: "env \<Rightarrow> operation \<Rightarrow> azkaban \<Rightarrow> response \<Rightarrow> bool" where
  "answered_with env c s r =
     (case new_calls env c s of
        [req] \<Rightarrow> transport env req = Inr r
      | _ \<Rightarrow> False)"

definition is_session_error :: "error + 'a \<Rightarrow> bool" where
  "is_session_error res = (case res of Inl (SessionError _) \<Rightarrow> True | _ \<Rightarrow> False)"

section \<open>Vocabulary of the statements\<close>




text \<open>The instance after one more call has gone through its session.\<close>

definition sent :: "azkaban \<Rightarrow> request \<Rightarrow> azkaban" where
  "sent s req = s\<lparr>self_session := self_session s @ [req]\<rparr>"

fun is_login :: "operation \<Rightarrow> bool" where
  "is_login (Login _ _ _) = True"
| "is_login _ = False"

fun is_fetch_executions_of_a_flow :: "operation \<Rightarrow> bool" where
  "is_fetch_executions_of_a_flow (FetchExecutionsOfAFlow _ _ _ _) = True"
| "is_fetch_executions_of_a_flow _ = False"

text \<open>
  A call whose keyword arguments bind: none of the \<^verbatim>\<open>**execution_options\<close> names a
  parameter of the method called.
\<close>

fun keywords_bind :: "operation \<Rightarrow> bool" where
  "keywords_bind (Schedule _ _ _ execution_options) =
     (check_kwargs [''self'', ''project'', ''flow'', ''cron''] execution_options = Inr ())"
| "keywords_bind (Execute _ _ execution_options) =
     (check_kwargs [''self'', ''project'', ''flow''] execution_options = Inr ())"
| "keywords_bind _ = True"

text \<open>A logged-in instance whose host is a string.\<close>

definition logged_on :: "azkaban \<Rightarrow> bool" where
  "logged_on s =
     (truthy (self_session_id s) \<and> (case self_host s of PStr _ \<Rightarrow> True | _ \<Rightarrow> False))"

text \<open>
  The conditions, on the instance, the call and the file system, under which a method
  gets as far as sending its request: logged in with a string host (not needed for
  login), keyword arguments that bind in the method and in its request builder, and for
  an upload an archive that \<^verbatim>\<open>make_archive\<close> could write.
\<close>

fun well_formed_call :: "env \<Rightarrow> azkaban \<Rightarrow> operation \<Rightarrow> bool" where
  "well_formed_call env s (Login _ _ _) = True"
| "well_formed_call env s (Upload path project zip_name) =
     (logged_on s \<and>
      (case make_archive env
              (if \<not> truthy zip_name
               then (if \<not> truthy project then PStr (basename (abspath env path)) else project)
               else zip_name)
              path of
         Inr _ \<Rightarrow> True
       | Inl _ \<Rightarrow> False))"
| "well_formed_call env s (Schedule project flow cron execution_options) =
     (logged_on s \<and>
      check_kwargs [''self'', ''project'', ''flow'', ''cron''] execution_options = Inr () \<and>
      check_kwargs [''session'', ''host'', ''session_id'', ''project'', ''flow'', ''cron'']
        (truthy_items execution_options) = Inr ())"
| "well_formed_call env s (Execute project flow execution_options) =
     (logged_on s \<and>
      check_kwargs [''self'', ''project'', ''flow''] execution_options = Inr () \<and>
      check_kwargs [''session'', ''host'', ''session_id'', ''project'', ''flow'']
        (truthy_items execution_options) = Inr ())"
| "well_formed_call env s _ = logged_on s"

text \<open>The session state proper: host, user and session id, as \<^verbatim>\<open>get_logged_session\<close> shows it.\<close>

definition logged_session :: "azkaban \<Rightarrow> pyval \<times> pyval \<times> pyval" where
  "logged_session s = (self_host s, self_user s, self_session_id s)"

text \<open>The request that \<^verbatim>\<open>login\<close> sends.\<close>

definition login_call :: "string \<Rightarrow> pyval \<Rightarrow> pyval \<Rightarrow> request" where
  "login_call host user password =
     \<lparr>req_method = POST, req_url = validate_host host,
      req_params = [(''action'', PStr ''login''), (''username'', user), (''password'', password)],
      req_files = []\<rparr>"

text \<open>The request that \<^verbatim>\<open>remove_permission\<close> sends to host \<open>h\<close>.\<close>

definition remove_permission_call :: "string \<Rightarrow> pyval \<Rightarrow> pyval \<Rightarrow> pyval \<Rightarrow> request" where
  "remove_permission_call h session_id project group_name =
     \<lparr>req_method = GET, req_url = h @ ''/manager'',
      req_params =
        [(''session.id'', session_id),
         (''ajax'', PStr ''changePermission''),
         (''project'', project),
         (''name'', group_name),
         (''permissions[admin]'', PBool False),
         (''permissions[write]'', PBool False),
         (''permissions[read]'', PBool False),
         (''permissions[execute]'', PBool False),
         (''permissions[schedule]'', PBool False),
         (''group'', PBool True)],
      req_files = []\<rparr>"

subsection \<open>Concrete inputs\<close>

text \<open>A server that answers every request with the same response, and has no files.\<close>

definition constant_server :: "response \<Rightarrow> env" where
  "constant_server r =
     \<lparr>transport = (\<lambda>_. Inr r),
      abspath = (\<lambda>p. p),
      make_archive = (\<lambda>_ _. Inl (FileNotFoundError ''no such directory''))\<rparr>"

definition logged_in_client :: azkaban where
  "logged_in_client =
     \<lparr>self_host = PStr ''http://azkaban'', self_user = PStr ''user'',
      self_session_id = PStr ''token'', self_session = []\<rparr>"

text \<open>The plain text \<open>Login error. Need username and password\<close>, and the bodies
  \<^verbatim>\<open>{"error": "session"}\<close>, \<^verbatim>\<open>{}\<close>, \<^verbatim>\<open>{"status": "error"}\<close>,
  \<^verbatim>\<open>{"status": "error", "message": "bad cron"}\<close> and \<^verbatim>\<open>{"session.id": "abc"}\<close>.\<close>

definition session_error_response :: response where
  "session_error_response =
     \<lparr>resp_text = ''{'' @ [CHR 0x22] @ ''error'' @ [CHR 0x22] @ '': '' @ [CHR 0x22] @ ''session''
                   @ [CHR 0x22] @ ''}'',
      resp_json = Some (PDict [(''error'', PStr ''session'')])\<rparr>"

definition login_error_response :: response where
  "login_error_response = \<lparr>resp_text = login_error_text, resp_json = None\<rparr>"

definition empty_response :: response where
  "empty_response = \<lparr>resp_text = ''{}'', resp_json = Some (PDict [])\<rparr>"

definition status_error_response :: response where
  "status_error_response =
     \<lparr>resp_text = ''{'' @ [CHR 0x22] @ ''status'' @ [CHR 0x22] @ '': '' @ [CHR 0x22] @ ''error''
                   @ [CHR 0x22] @ ''}'',
      resp_json = Some (PDict [(''status'', PStr ''error'')])\<rparr>"

definition bad_cron_response :: response where
  "bad_cron_response =
     \<lparr>resp_text = ''{'' @ [CHR 0x22] @ ''status'' @ [CHR 0x22] @ '': '' @ [CHR 0x22] @ ''error''
                   @ [CHR 0x22] @ '', '' @ [CHR 0x22] @ ''message'' @ [CHR 0x22] @ '': ''
                   @ [CHR 0x22] @ ''bad cron'' @ [CHR 0x22] @ ''}'',
      resp_json = Some (PDict [(''status'', PStr ''error''), (''message'', PStr ''bad cron'')])\<rparr>"

definition token_response :: response where
  "token_response =
     \<lparr>resp_text = ''{'' @ [CHR 0x22] @ ''session.id'' @ [CHR 0x22] @ '': '' @ [CHR 0x22] @ ''abc''
                   @ [CHR 0x22] @ ''}'',
      resp_json = Some (PDict [(''session.id'', PStr ''abc'')])\<rparr>"


section \<open>Laws of method bodies\<close>

lemma bind_pure_action [simp]:
  "bind_action (pure_action r) f s = (case r of Inl e \<Rightarrow> (Inl e, s) | Inr x \<Rightarrow> f x s)"
  by (simp add: bind_action_def pure_action_def split: sum.splits)

lemma bind_get_self [simp]: "bind_action get_self f s = f s s"
  by (simp add: bind_action_def get_self_def)

lemma bind_raise_action [simp]: "bind_action (raise_action e) f s = (Inl e, s)"
  by (simp add: bind_action_def raise_action_def)

lemma bind_check_if_logged [simp]:
  "bind_action check_if_logged f s =
     (if truthy (self_session_id s) then f () s else (Inl NotLoggedOnError, s))"
  by (simp add: check_if_logged_def bind_action_def get_self_def raise_action_def
      return_action_def)

lemma bind_action_assoc [simp]:
  "bind_action (bind_action m f) g = bind_action m (\<lambda>x. bind_action (f x) g)"
  by (rule ext) (simp add: bind_action_def split: prod.splits sum.splits)

lemma bind_session_get [simp]:
  "bind_action (session_get env url params) f s =
     (case transport env
             \<lparr>req_method = GET, req_url = url, req_params = params, req_files = []\<rparr> of
        Inl e \<Rightarrow>
          (Inl e, sent s \<lparr>req_method = GET, req_url = url, req_params = params, req_files = []\<rparr>)
      | Inr r \<Rightarrow>
          f r (sent s \<lparr>req_method = GET, req_url = url, req_params = params, req_files = []\<rparr>))"
  by (simp add: bind_action_def session_get_def sent_def Let_def split: sum.splits)

lemma bind_session_post [simp]:
  "bind_action (session_post env url data files) f s =
     (case transport env
             \<lparr>req_method = POST, req_url = url, req_params = data, req_files = files\<rparr> of
        Inl e \<Rightarrow>
          (Inl e,
           sent s \<lparr>req_method = POST, req_url = url, req_params = data, req_files = files\<rparr>)
      | Inr r \<Rightarrow>
          f r (sent s \<lparr>req_method = POST, req_url = url, req_params = data, req_files = files\<rparr>))"
  by (simp add: bind_action_def session_post_def sent_def Let_def split: sum.splits)

lemma return_action_apply [simp]: "return_action x s = (Inr x, s)"
  by (simp add: return_action_def)

lemma pure_action_apply [simp]: "pure_action r s = (r, s)"
  by (simp add: pure_action_def)

lemma sent_fields [simp]:
  "self_session (sent s req) = self_session s @ [req]"
  "self_host (sent s req) = self_host s"
  "self_user (sent s req) = self_user s"
  "self_session_id (sent s req) = self_session_id s"
  by (simp_all add: sent_def)

lemma constant_server_fields [simp]:
  "transport (constant_server r) req = Inr r"
  by (simp add: constant_server_def)

lemma logged_in_client_fields [simp]:
  "self_host logged_in_client = PStr ''http://azkaban''"
  "self_session_id logged_in_client = PStr ''token''"
  "self_session logged_in_client = []"
  by (simp_all add: logged_in_client_def)

lemma bind_enter [simp]:
  "bind_traced (enter c r) f log =
     (case r of Inl e \<Rightarrow> (Inl e, log @ [c]) | Inr x \<Rightarrow> f x (log @ [c]))"
  by (simp add: bind_traced_def enter_def split: sum.splits)

lemma bind_traced_assoc [simp]:
  "bind_traced (bind_traced m f) g = bind_traced m (\<lambda>x. bind_traced (f x) g)"
  by (rule ext) (simp add: bind_traced_def split: prod.splits sum.splits)

lemma enter_apply [simp]: "enter c r log = (r, log @ [c])"
  by (simp add: enter_def)

lemma return_traced_apply [simp]: "return_traced x log = (Inr x, log)"
  by (simp add: return_traced_def)

text \<open>The funnel without its log: the first check that raises decides.\<close>

lemma catch_login_eq:
  "catch_login response =
     (case catch_login_text response of
        Inl e \<Rightarrow> Inl e
      | Inr _ \<Rightarrow> catch_login_html response)"
  by (simp add: catch_login_def catch_login_traced_def split: sum.splits)

lemma catch_response_error_eq:
  "catch_response_error response exception ignore_empty_responses =
     (case catch_login response of
        Inl e \<Rightarrow> Inl e
      | Inr _ \<Rightarrow>
          (let response_json = decode_or_empty response in
           case catch_response_error_msg exception response_json of
             Inl e \<Rightarrow> Inl e
           | Inr _ \<Rightarrow>
               (case catch_response_status_error exception response_json of
                  Inl e \<Rightarrow> Inl e
                | Inr _ \<Rightarrow>
                    (if \<not> ignore_empty_responses
                     then catch_empty_response exception response_json
                     else Inr ()))))"
  by (simp add: catch_response_error_def catch_response_error_traced_def catch_login_eq
      catch_login_traced_def split: sum.splits)

lemmas method_defs =
  login_def upload_def schedule_def fetch_flows_def fetch_jobs_from_flow_def fetch_schedule_def
  unschedule_def execute_def cancel_def create_def delete_def fetch_projects_def
  add_permission_def remove_permission_def change_permission_def fetch_sla_def
  fetch_flow_execution_def fetch_flow_execution_updates_def fetch_executions_of_a_flow_def
  fetch_execution_job_log_def resume_flow_execution_def fetch_running_executions_of_a_flow_def

lemmas request_defs =
  login_request_def upload_request_def schedule_request_def fetch_flows_request_def
  fetch_jobs_from_flow_request_def fetch_schedule_request_def unschedule_request_def
  execute_request_def cancel_request_def create_request_def delete_request_def
  fetch_projects_request_def add_permission_request_def remove_permission_request_def
  change_permission_request_def call_permission_api_def fetch_sla_request_def
  fetch_flow_execution_request_def fetch_flow_execution_updates_request_def
  fetch_executions_of_a_flow_request_def fetch_execution_job_log_request_def
  resume_flow_execution_request_def fetch_running_executions_of_a_flow_request_def

lemmas login_check_defs =
  catch_login_eq catch_login_text_def catch_login_html_def login_error_text_def
  login_js_line_def splitlines_def is_linebreak_def

lemmas classifier_defs =
  catch_response_error_eq decode_or_empty_def catch_response_error_msg_def
  catch_response_status_error_def catch_empty_response_def

lemma catch_login_examples [simp]:
  "catch_login session_error_response = Inr ()"
  "catch_login empty_response = Inr ()"
  "catch_login status_error_response = Inr ()"
  "catch_login bad_cron_response = Inr ()"
  "catch_login token_response = Inr ()"
  by (simp_all add: login_check_defs session_error_response_def empty_response_def
      status_error_response_def bad_cron_response_def token_response_def)

section \<open>Properties of the permission normalizer\<close>

text \<open>
  Claim C4. The permission normalizer is a pure function with: input \<open>{}\<close> yields
  \<open>{admin: false, read: true, write: false, execute: false, schedule: false}\<close>; input
  \<open>{admin: true}\<close> yields all five flags true; input \<open>{write: true}\<close> yields
  \<open>{admin: false, read: true, write: true, execute: false, schedule: false}\<close>.
  The returned dictionary lists its keys in the order of \<^verbatim>\<open>__options\<close> (admin, write,
  read, execute, schedule); read as a finite map it is the dictionary of the claim.
\<close>

theorem check_group_permissions_examples:
  "check_group_permissions [] =
     Inr [(''admin'', PBool False), (''write'', PBool False), (''read'', PBool True),
          (''execute'', PBool False), (''schedule'', PBool False)]
   \<and> map_sum id map_of (check_group_permissions []) =
     Inr [''admin'' \<mapsto> PBool False, ''read'' \<mapsto> PBool True, ''write'' \<mapsto> PBool False,
          ''execute'' \<mapsto> PBool False, ''schedule'' \<mapsto> PBool False]
   \<and> check_group_permissions [(''admin'', PBool True)] =
     Inr [(''admin'', PBool True), (''write'', PBool True), (''read'', PBool True),
          (''execute'', PBool True), (''schedule'', PBool True)]
   \<and> map_sum id map_of (check_group_permissions [(''admin'', PBool True)]) =
     Inr [''admin'' \<mapsto> PBool True, ''read'' \<mapsto> PBool True, ''write'' \<mapsto> PBool True,
          ''execute'' \<mapsto> PBool True, ''schedule'' \<mapsto> PBool True]
   \<and> check_group_permissions [(''write'', PBool True)] =
     Inr [(''admin'', PBool False), (''write'', PBool True), (''read'', PBool True),
          (''execute'', PBool False), (''schedule'', PBool False)]
   \<and> map_sum id map_of (check_group_permissions [(''write'', PBool True)]) =
     Inr [''admin'' \<mapsto> PBool False, ''read'' \<mapsto> PBool True, ''write'' \<mapsto> PBool True,
          ''execute'' \<mapsto> PBool False, ''schedule'' \<mapsto> PBool False]"
  by (auto simp add: check_group_permissions_def permission_option_names_def dict_getitem_def
      fun_eq_iff)

text \<open>
  Claim C9. For every input mapping the normalizer returns a permission set, and its
  \<open>read\<close> flag is \<open>True\<close>: also when the caller passes \<open>read: false\<close> with other flags
  declared, as in \<open>{admin: false, read: false, write: true, execute: true, schedule: true}\<close>.
  With a falsy \<open>admin\<close> the conjunction of the five flags is falsy, so the \<open>read\<close>
  default applies; with a truthy \<open>admin\<close> every flag is set.
\<close>

theorem check_group_permissions_read:
  "(\<exists>d. check_group_permissions permission_options = Inr d
        \<and> map_of d ''read'' = Some (PBool True))
   \<and> check_group_permissions
        [(''admin'', PBool False), (''read'', PBool False), (''write'', PBool True),
         (''execute'', PBool True), (''schedule'', PBool True)] =
      Inr [(''admin'', PBool False), (''write'', PBool True), (''read'', PBool True),
           (''execute'', PBool True), (''schedule'', PBool True)]"
  by (auto simp add: check_group_permissions_def permission_option_names_def dict_getitem_def
      Let_def split: option.splits)

section \<open>Properties of the classifier\<close>

text \<open>
  Claim C10. When a response passes the login checks and its decoded body has no
  \<open>error\<close> key and has \<open>status\<close> equal to \<open>"error"\<close>, the classifier raises the typed
  error of the operation carrying the \<open>message\<close> field if that key is present, and the
  generic \<^verbatim>\<open>KeyError\<close> of the failed lookup if it is absent.
\<close>

theorem status_error_without_message:
  assumes "catch_login response = Inr ()"
    and "decode_or_empty response = PDict kvs"
    and "map_of kvs ''error'' = None"
    and "map_of kvs ''status'' = Some (PStr ''error'')"
  shows "catch_response_error response exception ignore_empty_responses =
           (case map_of kvs ''message'' of
              None \<Rightarrow> Inl (KeyError ''message'')
            | Some error_msg \<Rightarrow> Inl (Raised exception error_msg))"
  using assms
  by (simp add: catch_response_error_eq catch_response_error_msg_def
      catch_response_status_error_def split: option.splits)

theorem status_error_without_message_witness:
  "catch_response_error status_error_response ScheduleError False = Inl (KeyError ''message'')
   \<and> catch_response_error bad_cron_response ScheduleError False
       = Inl (Raised ScheduleError (PStr ''bad cron''))"
proof -
  have 1: "decode_or_empty status_error_response = PDict [(''status'', PStr ''error'')]"
    by (simp add: decode_or_empty_def status_error_response_def)
  have 2: "decode_or_empty bad_cron_response
             = PDict [(''status'', PStr ''error''), (''message'', PStr ''bad cron'')]"
    by (simp add: decode_or_empty_def bad_cron_response_def)
  show ?thesis
    using status_error_without_message [OF catch_login_examples(3) 1, of ScheduleError False]
      status_error_without_message [OF catch_login_examples(4) 2, of ScheduleError False]
    by simp
qed

text \<open>What the classifier does with a session payload and with an empty body.\<close>

lemma session_payload_is_session_error:
  assumes "resp_json r = Some (PDict kvs)" and "map_of kvs ''error'' = Some (PStr ''session'')"
  shows "\<exists>m. catch_response_error r exc ign = Inl (SessionError m)"
  using assms
  by (auto simp add: catch_response_error_eq catch_login_eq catch_login_text_def
      catch_login_html_def decode_or_empty_def catch_response_error_msg_def split: sum.splits)

lemma empty_body_is_empty_response:
  assumes "catch_login r = Inr ()" and "decode_or_empty r = PDict []"
  shows "catch_response_error r exc False = Inl (Raised exc (PStr ''Empty response''))"
  using assms
  by (simp add: catch_response_error_eq catch_response_error_msg_def
      catch_response_status_error_def catch_empty_response_def)

text \<open>
  Claim C2, as stated: the classifier applies login-page HTML marker detection before
  the literal missing-credentials text check. On the body
  \<open>Login error. Need username and password\<close> the classifier enters the text check
  and raises there: HTML marker detection is not entered at all. On the body \<open>{}\<close>,
  where every check runs, the text check is entered first and the HTML check second.
\<close>

lemma catch_login_login_error [simp]:
  "catch_login_text login_error_response = Inl (SessionError (PStr login_error_text))"
  by (simp add: catch_login_text_def login_error_response_def)




section \<open>Operations that hand their response to the classifier\<close>

text \<open>
  The normalizer always returns the five flags, so the permission builders find them.
\<close>

lemma check_group_permissions_shape:
  "\<exists>a w r e sc. check_group_permissions permission_options =
     Inr [(''admin'', a), (''write'', w), (''read'', r), (''execute'', e), (''schedule'', sc)]"
  by (auto simp add: check_group_permissions_def permission_option_names_def dict_getitem_def
      Let_def split: option.splits)

lemma logged_onD:
  assumes "logged_on s"
  obtains h where "self_host s = PStr h" and "truthy (self_session_id s)"
  using assms by (auto simp add: logged_on_def split: pyval.splits)

text \<open>
  For every method that calls \<^verbatim>\<open>__catch_response_error\<close>, other than
  \<^verbatim>\<open>fetch_executions_of_a_flow\<close>: on a well-formed call, against a server that answers
  with \<open>r\<close>, an error of the classifier on \<open>r\<close> is the error of the method.
\<close>

lemma classified_error:
  assumes "classifier_args c = Some (exc, ign)"
    and "\<not> is_fetch_executions_of_a_flow c"
    and "well_formed_call env s c"
    and "transport env = (\<lambda>_. Inr r)"
    and "catch_response_error r exc ign = Inl e"
  shows "fst (invoke env c s) = Inl e"
proof (cases "is_login c")
  case True
  with assms show ?thesis
    by (cases c) (simp_all add: login_def login_request_def Let_def)
next
  case False
  with assms(3) have "logged_on s"
    by (cases c) simp_all
  then obtain h where h: "self_host s = PStr h" "truthy (self_session_id s)"
    by (rule logged_onD)
  show ?thesis
  proof (cases c)
    case (Upload path project zip_name)
    with assms h show ?thesis
      by (auto simp add: upload_def upload_request_def make_archive_or_upload_error_def
          str_plus_def Let_def split: sum.splits)
  next
    case (AddPermission project group_name permission_options)
    with assms h check_group_permissions_shape [of permission_options] show ?thesis
      by (auto simp add: add_permission_def add_permission_request_def call_permission_api_def
          dict_getitem_def str_plus_def)
  next
    case (ChangePermission project group_name permission_options)
    with assms h check_group_permissions_shape [of permission_options] show ?thesis
      by (auto simp add: change_permission_def change_permission_request_def
          call_permission_api_def dict_getitem_def str_plus_def)
  qed (use assms h False in \<open>simp_all add: method_defs request_defs str_plus_def
        dict_getitem_def Let_def\<close>)
qed

section \<open>Properties of the operations\<close>

subsection \<open>Concrete runs\<close>

lemma decode_examples [simp]:
  "decode_or_empty empty_response = PDict []"
  "decode_or_empty session_error_response = PDict [(''error'', PStr ''session'')]"
  "decode_or_empty token_response = PDict [(''session.id'', PStr ''abc'')]"
  by (simp_all add: decode_or_empty_def empty_response_def session_error_response_def
      token_response_def)

lemma classify_examples [simp]:
  "catch_response_error empty_response exc False = Inl (Raised exc (PStr ''Empty response''))"
  "catch_response_error session_error_response exc ign = Inl (SessionError (PStr ''session''))"
  "catch_response_error token_response exc ign = Inr ()"
  by (simp_all add: catch_response_error_eq catch_response_error_msg_def
      catch_response_status_error_def catch_empty_response_def)

lemma answered_Delete_example:
  "answered_with (constant_server r) (Delete (PStr ''p'')) logged_in_client r"
  by (simp add: answered_with_def new_calls_def delete_def delete_request_def str_plus_def
      split: sum.splits)

lemma answered_FetchProjects_example:
  "answered_with (constant_server r) FetchProjects logged_in_client r"
  by (simp add: answered_with_def new_calls_def fetch_projects_def fetch_projects_request_def
      str_plus_def split: sum.splits)

lemma login_checks_commute:
  "(case catch_login_html r of Inl e \<Rightarrow> Inl e | Inr _ \<Rightarrow> catch_login_text r) = catch_login r"
  by (simp add: catch_login_eq catch_login_text_def catch_login_html_def)

subsection \<open>Operations without a session\<close>

text \<open>
  Claim C3. For every operation except login (logout is not a remote operation and is
  modelled apart), invoking it while no session token is held (\<open>session_id\<close> is
  \<open>None\<close>) raises \<^verbatim>\<open>NotLoggedOnError\<close> at once: the instance is left as it was and no
  request goes through the session. An invocation is a call that binds: for
  \<^verbatim>\<open>schedule\<close> and \<^verbatim>\<open>execute\<close>, one whose keyword arguments do not name a parameter of
  the method.
\<close>

theorem not_logged_in_no_request:
  assumes "self_session_id s = PNone" and "\<not> is_login c" and "keywords_bind c"
  shows "invoke env c s = (Inl NotLoggedOnError, s) \<and> new_calls env c s = []"
proof -
  have "invoke env c s = (Inl NotLoggedOnError, s)"
    using assms by (cases c) (simp_all add: method_defs)
  then show ?thesis
    by (simp add: new_calls_def)
qed

text \<open>
  Witness for C3: \<^verbatim>\<open>execute\<close> with an execution option, on a fresh instance.
\<close>

theorem not_logged_in_no_request_witness:
  "invoke (constant_server empty_response)
     (Execute (PStr ''p'') (PStr ''f'') [(''failureAction'', PStr ''finishCurrent'')])
     init_azkaban
     = (Inl NotLoggedOnError, init_azkaban)
   \<and> new_calls (constant_server empty_response)
       (Execute (PStr ''p'') (PStr ''f'') [(''failureAction'', PStr ''finishCurrent'')])
       init_azkaban = []"
  using not_logged_in_no_request
          [of init_azkaban
              "Execute (PStr ''p'') (PStr ''f'') [(''failureAction'', PStr ''finishCurrent'')]"
              "constant_server empty_response"]
  by (simp add: init_azkaban_def check_kwargs_def)

text \<open>A call that does not bind raises \<^verbatim>\<open>TypeError\<close>, logged in or not, and sends nothing.\<close>

lemma keywords_do_not_bind:
  assumes "\<not> keywords_bind c"
  shows "invoke env c s = (Inl TypeError, s)"
  using assms
  by (cases c) (auto simp add: schedule_def execute_def check_kwargs_def split: if_splits)

text \<open>The same holds for every falsy session id, such as the empty string.\<close>

lemma falsy_session_id_no_request:
  assumes "\<not> truthy (self_session_id s)" and "\<not> is_login c" and "keywords_bind c"
  shows "invoke env c s = (Inl NotLoggedOnError, s)"
  using assms by (cases c) (simp_all add: method_defs)

subsection \<open>Session payloads\<close>

text \<open>
  Claim C1, as stated: every operation, delete-project and fetch-all-projects included,
  raises \<^verbatim>\<open>SessionError\<close> on a response whose decoded body has \<open>error\<close> equal to
  \<open>"session"\<close>. Against a server that answers every request with the body
  \<^verbatim>\<open>{"error": "session"}\<close>, \<^verbatim>\<open>delete\<close> returns \<open>None\<close> and \<^verbatim>\<open>fetch_projects\<close> returns
  the text of the response.
\<close>

theorem session_payload_counterexample:
  "resp_json session_error_response = Some (PDict [(''error'', PStr ''session'')])
   \<and> answered_with (constant_server session_error_response) (Delete (PStr ''p''))
        logged_in_client session_error_response
   \<and> fst (invoke (constant_server session_error_response) (Delete (PStr ''p''))
             logged_in_client) = Inr PNone
   \<and> answered_with (constant_server session_error_response) FetchProjects
        logged_in_client session_error_response
   \<and> fst (invoke (constant_server session_error_response) FetchProjects logged_in_client)
       = Inr (PStr (resp_text session_error_response))"
  by (simp add: answered_Delete_example answered_FetchProjects_example delete_def
      delete_request_def fetch_projects_def fetch_projects_request_def str_plus_def)
    (simp add: session_error_response_def)

text \<open>
  Claim C1, amended. For every operation that hands its response to the classifier,
  that is every operation except delete-project and fetch-all-projects, and leaving
  fetch-executions-of-a-flow aside: on a well-formed call, when the server answers with
  a response whose decoded JSON body has the key \<open>error\<close> with value \<open>"session"\<close>,
  the operation raises \<^verbatim>\<open>SessionError\<close>.
\<close>

lemma logged_on_logged_in_client [simp]: "logged_on logged_in_client"
  by (simp add: logged_on_def)

lemma transport_constant_server: "transport (constant_server r) = (\<lambda>_. Inr r)"
  by (simp add: constant_server_def)

theorem session_payload_classified:
  assumes "classifier_args c \<noteq> None"
    and "\<not> is_fetch_executions_of_a_flow c"
    and "well_formed_call env s c"
    and "transport env = (\<lambda>_. Inr r)"
    and "resp_json r = Some (PDict kvs)"
    and "map_of kvs ''error'' = Some (PStr ''session'')"
  shows "is_session_error (fst (invoke env c s))"
proof -
  obtain exc ign where args: "classifier_args c = Some (exc, ign)"
    using assms(1) by auto
  obtain m where "catch_response_error r exc ign = Inl (SessionError m)"
    using session_payload_is_session_error [OF assms(5,6)] by blast
  then have "fst (invoke env c s) = Inl (SessionError m)"
    using classified_error [OF args assms(2,3,4)] by simp
  then show ?thesis
    by (simp add: is_session_error_def)
qed

text \<open>Witness for C1, amended: \<^verbatim>\<open>cancel\<close> against the same server.\<close>

theorem session_payload_classified_witness:
  "is_session_error
     (fst (invoke (constant_server session_error_response) (Cancel (PStr ''7''))
             logged_in_client))"
proof -
  have "resp_json session_error_response = Some (PDict [(''error'', PStr ''session'')])"
    by (simp add: session_error_response_def)
  then show ?thesis
    using session_payload_classified
            [of "Cancel (PStr ''7'')" "constant_server session_error_response"
                logged_in_client session_error_response "[(''error'', PStr ''session'')]"]
    by (simp add: transport_constant_server)
qed

subsection \<open>Empty bodies\<close>

text \<open>
  On a well-formed call of a method that keeps the emptiness check, other than
  \<^verbatim>\<open>fetch_executions_of_a_flow\<close>, a response that passes the login checks and whose
  decoded body is \<open>{}\<close> raises the method's own class with \<open>Empty response\<close>;
  \<^verbatim>\<open>delete\<close> returns normally whatever the body.
\<close>

lemma delete_returns:
  assumes "logged_on s" and "transport env = (\<lambda>_. Inr r)"
  shows "fst (invoke env (Delete project) s) = Inr PNone"
  using assms
  by (auto simp add: logged_on_def delete_def delete_request_def str_plus_def
      split: pyval.splits)

lemma empty_response_raised:
  assumes "classifier_args c = Some (exc, False)"
    and "\<not> is_fetch_executions_of_a_flow c"
    and "well_formed_call env s c"
    and "transport env = (\<lambda>_. Inr r)"
    and "catch_login r = Inr ()"
    and "decode_or_empty r = PDict []"
  shows "fst (invoke env c s) = Inl (Raised exc (PStr ''Empty response''))"
  using classified_error [OF assms(1,2,3,4)] empty_body_is_empty_response [OF assms(5,6)]
  by simp

lemma cancel_empty_response_example:
  "fst (invoke (constant_server empty_response) (Cancel (PStr ''7'')) logged_in_client)
     = Inl (Raised CancelError (PStr ''Empty response''))
   \<and> fst (invoke (constant_server empty_response) (Delete (PStr ''p'')) logged_in_client)
     = Inr PNone"
  using empty_response_raised
          [of "Cancel (PStr ''7'')" CancelError "constant_server empty_response"
              logged_in_client empty_response]
        delete_returns [of logged_in_client "constant_server empty_response" empty_response
                           "PStr ''p''"]
  by (simp add: transport_constant_server)

text \<open>
  Claim C5 says that every operation that does not opt out of the emptiness check
  raises its own error with the message \<open>Empty response\<close> on a response whose decoded
  body is \<open>{}\<close>. \<^verbatim>\<open>fetch_executions_of_a_flow\<close> calls the classifier without opting
  out, but on a logged-in instance whose server answers every request with \<open>{}\<close> it
  raises \<^verbatim>\<open>NameError\<close>, not \<^verbatim>\<open>FetchExecutionsOfAFlowError\<close>: its request builder fails
  on the unbound \<^verbatim>\<open>host\<close> before any response exists.
\<close>

theorem fetch_executions_of_a_flow_empty_response:
  "classifier_args
     (FetchExecutionsOfAFlow (PStr ''project'') (PStr ''flow'') (PInt 0) (PInt 10))
     = Some (FetchExecutionsOfAFlowError, False)
   \<and> logged_on logged_in_client
   \<and> transport (constant_server empty_response) = (\<lambda>_. Inr empty_response)
   \<and> catch_login empty_response = Inr ()
   \<and> decode_or_empty empty_response = PDict []
   \<and> fst (invoke (constant_server empty_response)
             (FetchExecutionsOfAFlow (PStr ''project'') (PStr ''flow'') (PInt 0) (PInt 10))
             logged_in_client)
       = Inl (NameError ''host'')
   \<and> fst (invoke (constant_server empty_response)
             (FetchExecutionsOfAFlow (PStr ''project'') (PStr ''flow'') (PInt 0) (PInt 10))
             logged_in_client)
       \<noteq> Inl (Raised FetchExecutionsOfAFlowError (PStr ''Empty response''))"
  by (simp add: transport_constant_server fetch_executions_of_a_flow_def
      fetch_executions_of_a_flow_request_def)

subsection \<open>Executions of a flow\<close>

text \<open>
  \<^verbatim>\<open>fetch_executions_of_a_flow\<close> never reaches the session: logged in, it raises
  \<^verbatim>\<open>NameError\<close> for the unbound \<^verbatim>\<open>host\<close>.
\<close>

lemma fetch_executions_of_a_flow_raises:
  "invoke env (FetchExecutionsOfAFlow project flow start len) s =
     (if truthy (self_session_id s) then (Inl (NameError ''host''), s)
      else (Inl NotLoggedOnError, s))"
  by (simp add: fetch_executions_of_a_flow_def fetch_executions_of_a_flow_request_def)

text \<open>
  Claim C6 says that fetch-executions-of-a-flow, given a logged-in session, issues
  exactly one GET to \<open><host>/manager\<close> with \<open>ajax=fetchFlowExecutions\<close>, project, flow,
  start and length. On a logged-in instance, with project \<open>project\<close>, flow \<open>flow\<close>,
  start 0 and length 10, the method raises \<^verbatim>\<open>NameError\<close> and no call is made.
\<close>

theorem fetch_executions_of_a_flow_name_error:
  "invoke (constant_server token_response)
     (FetchExecutionsOfAFlow (PStr ''project'') (PStr ''flow'') (PInt 0) (PInt 10))
     logged_in_client
     = (Inl (NameError ''host''), logged_in_client)
   \<and> new_calls (constant_server token_response)
       (FetchExecutionsOfAFlow (PStr ''project'') (PStr ''flow'') (PInt 0) (PInt 10))
       logged_in_client = []"
  by (simp add: new_calls_def fetch_executions_of_a_flow_def
      fetch_executions_of_a_flow_request_def)

text \<open>
  The sibling \<^verbatim>\<open>fetch_flows\<close>, whose builder takes \<^verbatim>\<open>host\<close>, makes its one GET.
\<close>

lemma fetch_flows_one_call:
  assumes "truthy (self_session_id s)" and "self_host s = PStr h"
  shows "new_calls env (FetchFlows project) s =
           [\<lparr>req_method = GET, req_url = h @ ''/manager'',
             req_params = [(''session.id'', self_session_id s),
                           (''ajax'', PStr ''fetchprojectflows''),
                           (''project'', project)],
             req_files = []\<rparr>]"
  using assms
  by (auto simp add: new_calls_def fetch_flows_def fetch_flows_request_def str_plus_def
      split: sum.splits)

subsection \<open>Removing a permission\<close>

text \<open>
  Claim C8. For every project and group, the remove-permission operation, on a
  logged-in instance whose host is a string, sends exactly one request, and that request
  carries the all-false permission set (admin, read, write, execute and schedule all
  \<open>False\<close>): the permission normalizer, which never returns \<open>read\<close> false, is not
  involved.
\<close>

theorem remove_permission_all_false:
  assumes "truthy (self_session_id s)" and "self_host s = PStr h"
  shows "new_calls env (RemovePermission project group_name) s =
           [remove_permission_call h (self_session_id s) project group_name]"
  using assms
  by (auto simp add: new_calls_def remove_permission_def remove_permission_request_def
      call_permission_api_def dict_getitem_def str_plus_def remove_permission_call_def
      split: sum.splits)

text \<open>Witness for C8.\<close>

theorem remove_permission_all_false_witness:
  "new_calls (constant_server empty_response) (RemovePermission (PStr ''p'') (PStr ''g''))
     logged_in_client
     = [remove_permission_call ''http://azkaban'' (PStr ''token'') (PStr ''p'') (PStr ''g'')]"
  using remove_permission_all_false
          [of logged_in_client "''http://azkaban''" "constant_server empty_response"
              "PStr ''p''" "PStr ''g''"]
  by simp

subsection \<open>Login\<close>

lemma login_unfold:
  "login env host user password s =
     (case transport env (login_call host user password) of
        Inl e \<Rightarrow> (Inl e, sent s (login_call host user password))
      | Inr response \<Rightarrow>
          (case catch_response_error response LoginError False of
             Inl e \<Rightarrow> (Inl e, sent s (login_call host user password))
           | Inr _ \<Rightarrow>
               (case response_json_of response of
                  Inl e \<Rightarrow> (Inl e, sent s (login_call host user password))
                | Inr response_json \<Rightarrow>
                    (case py_getitem response_json ''session.id'' of
                       Inl e \<Rightarrow> (Inl e, sent s (login_call host user password))
                     | Inr session_id \<Rightarrow>
                         set_logged_session (PStr (validate_host host)) user session_id
                           (sent s (login_call host user password))))))"
  by (simp add: login_def login_request_def login_call_def Let_def split: sum.splits)

text \<open>
  Claim C7. If the response to the login request is classified as a failure (the
  classifier raises), \<^verbatim>\<open>login\<close> raises that error and host, user and session id keep
  the values they had before the call, so a logged-out instance stays logged out.
  Conversely, whenever \<^verbatim>\<open>login\<close> changes host, user or session id, the response has
  passed the classifier, and what is stored is the normalized host, the user and the
  token.
\<close>

theorem login_failure_keeps_session:
  "(transport env (login_call host user password) = Inr r
      \<and> catch_response_error r LoginError False = Inl e
     \<longrightarrow> fst (login env host user password s) = Inl e
         \<and> logged_session (snd (login env host user password s)) = logged_session s
         \<and> truthy (self_session_id (snd (login env host user password s)))
             = truthy (self_session_id s))
   \<and> (logged_session (snd (login env host user password s)) \<noteq> logged_session s
     \<longrightarrow> (\<exists>r token.
            transport env (login_call host user password) = Inr r
            \<and> catch_response_error r LoginError False = Inr ()
            \<and> fst (login env host user password s) = Inr PNone
            \<and> logged_session (snd (login env host user password s))
                = (PStr (validate_host host), user, token)))"
  by (auto simp add: login_unfold logged_session_def set_logged_session_def
      split: sum.splits)

lemma validate_host_example: "validate_host ''http://azkaban///'' = ''http://azkaban''"
  by (simp add: validate_host.simps)

text \<open>
  Witness for C7: a fresh instance logs in to \<open>http://azkaban///\<close>, once against a
  server that answers \<open>{}\<close> and once against one that answers with a token.
\<close>

theorem login_failure_keeps_session_witness:
  "fst (login (constant_server empty_response) ''http://azkaban///'' (PStr ''user'')
          (PStr ''secret'') init_azkaban)
     = Inl (Raised LoginError (PStr ''Empty response''))
   \<and> logged_session
       (snd (login (constant_server empty_response) ''http://azkaban///'' (PStr ''user'')
               (PStr ''secret'') init_azkaban))
     = (PNone, PNone, PNone)
   \<and> logged_session
       (snd (login (constant_server token_response) ''http://azkaban///'' (PStr ''user'')
               (PStr ''secret'') init_azkaban))
     = (PStr ''http://azkaban'', PStr ''user'', PStr ''abc'')
   \<and> catch_response_error token_response LoginError False = Inr ()"
  using login_failure_keeps_session
          [of "constant_server empty_response" "''http://azkaban///''" "PStr ''user''"
              "PStr ''secret''" empty_response "Raised LoginError (PStr ''Empty response'')"
              init_azkaban]
        login_failure_keeps_session
          [of "constant_server token_response" "''http://azkaban///''" "PStr ''user''"
              "PStr ''secret''" token_response "Raised LoginError (PStr ''Empty response'')"
              init_azkaban]
  by (simp add: login_unfold logged_session_def set_logged_session_def init_azkaban_def
      validate_host_example response_json_of_def py_getitem_def dict_getitem_def
      token_response_def [THEN arg_cong, of resp_json])

end
